theory Spec2Isabelle
  imports Main "HOL-Library.Sublist"
begin

section \<open>Values of the platform\<close>

text \<open>
  JavaScript strings are modelled as \<^typ>\<open>string\<close>. The two characters of the
  line terminator \<^verbatim>\<open>'\r\n'\<close> are carriage return and line feed.
\<close>

abbreviation CR :: char where "CR \<equiv> CHR 0x0D"
abbreviation LF :: char where "LF \<equiv> CHR 0x0A"

text \<open>A thrown \<^verbatim>\<open>Error\<close> object; the program only ever reads its \<^verbatim>\<open>message\<close>.\<close>

datatype js_error = Error (message: string)

text \<open>
  Decimal rendering of a number inside a template string. The baud rate is one of the
  eight natural numbers the prompt offers, so naturals suffice.
\<close>

fun digits :: "nat \<Rightarrow> string" where
  "digits n =
     (if n < 10 then [char_of (48 + n)]
      else digits (n div 10) @ [char_of (48 + n mod 10)])"

declare digits.simps [simp del]

section \<open>Objects the program holds\<close>

text \<open>An entry of \<^verbatim>\<open>SerialPort.list()\<close>.\<close>

datatype port_info =
  PortInfo (info_path: string) (manufacturer: "string option") (serialNumber: "string option")

text \<open>
  The options \<^verbatim>\<open>connectToDevice\<close> passes to \<^verbatim>\<open>new SerialPort\<close>; a port object
  is identified with them.
\<close>

record serial_port =
  path :: string
  baudRate :: nat
  dataBits :: nat
  stopBits :: nat
  parity :: string

text \<open>A stream made by \<^verbatim>\<open>fs.createWriteStream(logPath, { flags: 'a' })\<close>.\<close>

record write_stream =
  logPath :: string
  flags :: string

text \<open>
  What the program does to the outside world, in the order it does it: console output
  (the colour \<^verbatim>\<open>chalk\<close> adds is left out), the construction, closing and writing
  of ports, and the file system calls that change something.
\<close>

datatype channel = Log | Err | Debug

datatype effect =
    Console channel string
  | PortNew serial_port
  | PortClose serial_port
  | PortWrite serial_port string
  | Mkdir string
  | StreamNew write_stream
  | StreamWrite write_stream string
  | StreamEnd write_stream

text \<open>The two menus of the program.\<close>

datatype menu = DisconnectedMenu | ConnectedMenu

text \<open>
  The session: the two module variables \<^verbatim>\<open>serialConnection\<close> and \<^verbatim>\<open>logStream\<close>
  (\<^verbatim>\<open>null\<close> is \<^term>\<open>None\<close>), the buffer of the line parser piped from each port,
  the menu prompts that wait for the operator's answer, the effects so far, and the exit
  code once \<^verbatim>\<open>process.exit\<close> has been called. \<open>livePorts\<close> is the part of the
  outside world the program depends on: the ports that were constructed and have not
  closed since. A port closes by \<^verbatim>\<open>close()\<close> or on its own, which its \<^verbatim>\<open>'close'\<close>
  event reports; its \<^verbatim>\<open>'error'\<close> event says nothing about that.
\<close>

record session =
  serialConnection :: "serial_port option"
  logStream :: "write_stream option"
  parser :: "serial_port \<Rightarrow> string"
  livePorts :: "serial_port list"
  pending :: "menu list"
  trace :: "effect list"
  exitCode :: "int option"

definition initial :: session where
  "initial = \<lparr>serialConnection = None, logStream = None, parser = (\<lambda>_. []),
     livePorts = [], pending = [], trace = [], exitCode = None\<rparr>"

definition emit :: "effect list \<Rightarrow> session \<Rightarrow> session" where
  "emit es s = s\<lparr>trace := trace s @ es\<rparr>"

text \<open>The effects of a transition from \<open>s\<close> to \<open>s'\<close>: what \<open>s'\<close> has added to the trace.\<close>

definition fresh :: "session \<Rightarrow> session \<Rightarrow> effect list" where
  "fresh s s' = drop (length (trace s)) (trace s')"

section \<open>The line framer\<close>

text \<open>
  Modelled from the spec: the Line Framer is the \<^verbatim>\<open>ReadlineParser\<close> of the serial
  port library, which is not part of the repository; the source only fixes its
  delimiter. \<open>find_delimiter d xs\<close> looks for the first occurrence of the delimiter and
  returns the text before it and the text after it.
\<close>

fun find_delimiter :: "string \<Rightarrow> string \<Rightarrow> (string \<times> string) option" where
  "find_delimiter d [] = (if d = [] then Some ([], []) else None)"
| "find_delimiter d (x # xs) =
     (if prefix d (x # xs) then Some ([], drop (length d) (x # xs))
      else map_option (\<lambda>(l, r). (x # l, r)) (find_delimiter d xs))"

lemma find_delimiter_split:
  "find_delimiter d xs = Some (l, r) \<Longrightarrow> xs = l @ d @ r"
proof (induction xs arbitrary: l r)
  case Nil
  then show ?case by (simp split: if_splits)
next
  case (Cons x xs)
  show ?case
  proof (cases "prefix d (x # xs)")
    case True
    with Cons.prems have l: "l = []" and r: "r = drop (length d) (x # xs)"
      by simp_all
    from True obtain zs where zs: "x # xs = d @ zs" by (auto simp: prefix_def)
    then have "drop (length d) (x # xs) = zs" by simp
    with l r zs show ?thesis by simp
  next
    case False
    with Cons.prems obtain l' where "find_delimiter d xs = Some (l', r)" "l = x # l'"
      by auto
    with Cons.IH show ?thesis by simp
  qed
qed

text \<open>
  Modelled from the spec: the framer splits on the delimiter and discards it; what
  follows the last delimiter is the remainder it keeps. \<open>split_lines d xs\<close> returns the
  completed lines of \<open>xs\<close>, in order, and that remainder.
\<close>

function split_lines :: "string \<Rightarrow> string \<Rightarrow> string list \<times> string" where
  "split_lines d xs =
     (if d = [] then ([], xs)
      else case find_delimiter d xs of
        None \<Rightarrow> ([], xs)
      | Some (l, r) \<Rightarrow> (case split_lines d r of (ls, b) \<Rightarrow> (l # ls, b)))"
  by pat_completeness auto
termination
proof (relation "measure (\<lambda>(d, xs). length xs)")
  show "wf (measure (\<lambda>(d, xs). length xs))" by simp
next
  fix d xs :: string and x2 :: "string \<times> string" and l r :: string
  assume "d \<noteq> []" "find_delimiter d xs = Some x2" "(l, r) = x2"
  then have "xs = l @ d @ r" by (simp add: find_delimiter_split)
  with \<open>d \<noteq> []\<close> have "length r < length xs"
    by (cases d) simp_all
  then show "((d, r), (d, xs)) \<in> measure (\<lambda>(d, xs). length xs)" by simp
qed

declare split_lines.simps [simp del]

text \<open>
  Modelled from the spec: the framer buffers the trailing partial line across reads.
  One read hands the framer a chunk; it frames its buffer followed by the chunk and
  keeps the new remainder.
\<close>

definition ReadlineParser :: "string \<Rightarrow> string \<Rightarrow> string \<Rightarrow> string list \<times> string" where
  "ReadlineParser d buffer chunk = split_lines d (buffer @ chunk)"


section \<open>Paths of the platform\<close>

text \<open>
  \<^verbatim>\<open>path.join\<close> belongs to the platform, and \<^verbatim>\<open>toggleLogging\<close> takes it as an
  input. On POSIX it is this function: the arguments are put together with a separator
  and the result is normalised, segment by segment: empty segments and \<^verbatim>\<open>.\<close> are
  dropped, and \<^verbatim>\<open>..\<close> removes the segment before it (above the start of a relative
  path it is kept).
\<close>

fun split_sep :: "string \<Rightarrow> string list" where
  "split_sep [] = [[]]"
| "split_sep (c # cs) =
     (if c = CHR ''/'' then [] # split_sep cs
      else case split_sep cs of [] \<Rightarrow> [[c]] | seg # segs \<Rightarrow> (c # seg) # segs)"

fun join_sep :: "string list \<Rightarrow> string" where
  "join_sep [] = []"
| "join_sep [seg] = seg"
| "join_sep (seg # segs) = seg @ ''/'' @ join_sep segs"

fun normalizeString :: "bool \<Rightarrow> string list \<Rightarrow> string list \<Rightarrow> string list" where
  "normalizeString allowAboveRoot res [] = res"
| "normalizeString allowAboveRoot res (seg # segs) =
     (if seg = [] \<or> seg = ''.'' then normalizeString allowAboveRoot res segs
      else if seg = ''..'' then
        (if res \<noteq> [] \<and> last res \<noteq> ''..''
         then normalizeString allowAboveRoot (butlast res) segs
         else if allowAboveRoot then normalizeString allowAboveRoot (res @ [''..'']) segs
         else normalizeString allowAboveRoot res segs)
      else normalizeString allowAboveRoot (res @ [seg]) segs)"

definition normalize :: "string \<Rightarrow> string" where
  "normalize p =
     (if p = [] then ''.''
      else
        (let isAbsolute = (hd p = CHR ''/'');
             trailingSeparator = (last p = CHR ''/'');
             r = join_sep (normalizeString (\<not> isAbsolute) [] (split_sep p))
         in if r = [] then (if isAbsolute then ''/'' else if trailingSeparator then ''./'' else ''.'')
            else (if isAbsolute then ''/'' else []) @ r
                 @ (if trailingSeparator then ''/'' else [])))"

definition posix_join :: "string \<Rightarrow> string \<Rightarrow> string" where
  "posix_join a b =
     (if a = [] \<and> b = [] then ''.''
      else if a = [] then normalize b
      else if b = [] then normalize a
      else normalize (a @ ''/'' @ b))"

text \<open>
  The directory a path lies in: the text before its last separator. For a normalised
  absolute path with at least two segments this is \<^verbatim>\<open>path.dirname\<close>.
\<close>

definition dirname :: "string \<Rightarrow> string" where
  "dirname p = rev (drop 1 (dropWhile (\<lambda>c. c \<noteq> CHR ''/'') (rev p)))"

text \<open>
  A plain name is one segment that names an entry: not empty, not \<^verbatim>\<open>.\<close> or
  \<^verbatim>\<open>..\<close>, and without a separator. An absolute normalised path, as
  \<^verbatim>\<open>process.cwd()\<close> returns it, is a separator followed by plain names with separators
  between them.
\<close>

definition plain_name :: "string \<Rightarrow> bool" where
  "plain_name n \<longleftrightarrow> n \<noteq> [] \<and> n \<noteq> ''.'' \<and> n \<noteq> ''..'' \<and> CHR ''/'' \<notin> set n"

definition abs_path :: "string list \<Rightarrow> string" where
  "abs_path segs = ''/'' @ join_sep segs"

section \<open>The operations of the session\<close>

text \<open>
  A prompt inside an operation is modelled by the operator's answer, a call into the
  platform that can throw by its outcome (\<^term>\<open>Inl\<close> the error thrown), and the clock
  by the string \<^verbatim>\<open>new Date().toISOString()\<close> returns. They are the inputs of an
  operation, next to the session.
\<close>

subsection \<open>Showing a menu\<close>

text \<open>
  Showing a menu opens its prompt, which then waits for the operator's answer. Nothing
  in the program withdraws a prompt, so several can wait at once.

  \<^verbatim>\<open>showConnectedMenu\<close> reads \<^verbatim>\<open>serialConnection.path\<close> for the text of its prompt.
  With \<^verbatim>\<open>serialConnection\<close> null that throws; the error travels up the awaits to the
  \<^verbatim>\<open>try\<close> of the \<^verbatim>\<open>connectToDevice\<close> under which the connected menu was first
  shown, and its \<^verbatim>\<open>catch\<close> (lines 174 to 178) prints the error, sets
  \<^verbatim>\<open>serialConnection\<close> to null again and shows the main menu, which is then the
  disconnected one. The message is that of the V8 engine.
\<close>

definition showDisconnectedMenu :: "session \<Rightarrow> session" where
  "showDisconnectedMenu s = s\<lparr>pending := pending s @ [DisconnectedMenu]\<rparr>"

definition null_path_error :: js_error where
  "null_path_error = Error ''Cannot read properties of null (reading 'path')''"

definition showConnectedMenu :: "session \<Rightarrow> session" where
  "showConnectedMenu s =
     (case serialConnection s of
        None \<Rightarrow>
          showDisconnectedMenu
            (emit [Console Err (''Connection error: '' @ message null_path_error)] s)
      | Some p \<Rightarrow> s\<lparr>pending := pending s @ [ConnectedMenu]\<rparr>)"

definition showMainMenu :: "session \<Rightarrow> session" where
  "showMainMenu s =
     (if serialConnection s \<noteq> None then showConnectedMenu s else showDisconnectedMenu s)"

subsection \<open>The handlers \<^verbatim>\<open>connectToDevice\<close> registers on a port\<close>

text \<open>
  The handlers of \<^verbatim>\<open>'open'\<close>, \<^verbatim>\<open>'error'\<close> and \<^verbatim>\<open>'close'\<close>. The first reads the
  \<^verbatim>\<open>selectedPort\<close> and \<^verbatim>\<open>baudRate\<close> it closes over, which are those of the port.
  The last two end with \<^verbatim>\<open>showMainMenu()\<close>, which they do not await: the prompt it
  opens waits next to the prompt that was already waiting.
\<close>

definition onOpen :: "serial_port \<Rightarrow> session \<Rightarrow> session" where
  "onOpen p s =
     emit [Console Debug ([LF] @ '' '' @ ''Connected to '' @ path p @ '' at ''
             @ digits (baudRate p) @ '' baud'')] s"

definition onError :: "js_error \<Rightarrow> session \<Rightarrow> session" where
  "onError err s =
     showMainMenu
       (emit [Console Err (''Serial port error: '' @ message err)]
          (s\<lparr>serialConnection := None\<rparr>))"

definition onClose :: "session \<Rightarrow> session" where
  "onClose s =
     (let s1 = emit [Console Log ''Serial connection closed''] (s\<lparr>serialConnection := None\<rparr>);
          s2 = (case logStream s1 of
                  None \<Rightarrow> s1
                | Some ws \<Rightarrow> emit [StreamEnd ws] (s1\<lparr>logStream := None\<rparr>))
      in showMainMenu s2)"

text \<open>
  The handler of the parser's \<^verbatim>\<open>'data'\<close>: one call is one received line, \<open>data\<close>,
  stamped with the clock's reading \<open>timestamp\<close>.
\<close>

definition streamMsg :: "string \<Rightarrow> string \<Rightarrow> string" where
  "streamMsg timestamp data = ''['' @ timestamp @ ''] '' @ data"

definition onData :: "string \<Rightarrow> string \<Rightarrow> session \<Rightarrow> session" where
  "onData timestamp data s =
     (let s1 = emit [Console Log (streamMsg timestamp data)] s;
          s2 = (case logStream s1 of
                  None \<Rightarrow> s1
                | Some ws \<Rightarrow> emit [StreamWrite ws (streamMsg timestamp data @ [LF])] s1)
      in emit [Console Debug ([LF] @ '' '' @ streamMsg timestamp data)] s2)"

text \<open>A run of received lines, each with its timestamp, handled in order.\<close>

definition onLines :: "(string \<times> string) list \<Rightarrow> session \<Rightarrow> session" where
  "onLines evs s = foldl (\<lambda>s' (timestamp, data). onData timestamp data s') s evs"

text \<open>
  Bytes read from port \<open>p\<close> go through the parser piped from it, with the delimiter
  \<^verbatim>\<open>'\r\n'\<close> of the source; each completed line is handed to \<^const>\<open>onData\<close> in
  order, the \<open>i\<close>-th with the clock's \<open>i\<close>-th reading.
\<close>

definition delimiter :: string where
  "delimiter = [CR, LF]"

definition receive :: "serial_port \<Rightarrow> string \<Rightarrow> (nat \<Rightarrow> string) \<Rightarrow> session \<Rightarrow> session" where
  "receive p chunk clock s =
     (case ReadlineParser delimiter (parser s p) chunk of
        (lines, rest) \<Rightarrow>
          onLines (zip (map clock [0..<length lines]) lines)
            (s\<lparr>parser := (parser s)(p := rest)\<rparr>))"

subsection \<open>\<^verbatim>\<open>disconnectFromDevice\<close>\<close>

text \<open>
  \<^verbatim>\<open>serialConnection.close(callback)\<close> closes the port (the call is taken to
  succeed). The port then emits \<^verbatim>\<open>'close'\<close>, so the handler registered for it
  runs, menu included, and after it the callback, which finds the log stream ended
  already. The promise resolves at the end of the callback.
\<close>

definition disconnectFromDevice :: "session \<Rightarrow> session" where
  "disconnectFromDevice s =
     (case serialConnection s of
        None \<Rightarrow> s
      | Some p \<Rightarrow>
          (let s1 = onClose (emit [PortClose p] (s\<lparr>livePorts := remove1 p (livePorts s)\<rparr>));
               s2 = emit [Console Log ''Disconnected from serial device'']
                      (s1\<lparr>serialConnection := None\<rparr>)
           in case logStream s2 of
                None \<Rightarrow> s2
              | Some ws \<Rightarrow>
                  emit [StreamEnd ws, Console Log ''Logging stopped'']
                    (s2\<lparr>logStream := None\<rparr>)))"

subsection \<open>\<^verbatim>\<open>connectToDevice\<close>\<close>

text \<open>
  The inputs: what \<^verbatim>\<open>SerialPort.list()\<close> returns or throws, the port and the baud
  rate the operator selects (\<^verbatim>\<open>parseInt\<close> of a number of the list is that number), and
  whether \<^verbatim>\<open>new SerialPort\<close> throws. The port opens on its own after construction:
  the outcome of that arrives later as the port's \<^verbatim>\<open>'open'\<close> or \<^verbatim>\<open>'error'\<close>. The
  function does not look at \<^verbatim>\<open>serialConnection\<close> before it assigns it. Each of its
  three ways out ends with \<^verbatim>\<open>showMainMenu()\<close>.
\<close>

record connect_input =
  list_result :: "js_error + port_info list"
  selectedPort :: string
  selectedBaud :: nat
  construct_result :: "js_error + unit"

definition connect_catch :: "js_error \<Rightarrow> session \<Rightarrow> session" where
  "connect_catch err s =
     showMainMenu
       (emit [Console Err (''Connection error: '' @ message err)]
          (s\<lparr>serialConnection := None\<rparr>))"

definition connectToDevice :: "connect_input \<Rightarrow> session \<Rightarrow> session" where
  "connectToDevice inp s =
     (case list_result inp of
        Inl err \<Rightarrow> connect_catch err s
      | Inr ports \<Rightarrow>
          if ports = [] then
            showMainMenu
              (emit [Console Log ''No serial ports detected. Please connect a device.''] s)
          else
            (let s1 = emit [Console Log (''Connecting to '' @ selectedPort inp @ '' at ''
                          @ digits (selectedBaud inp) @ '' baud...'')] s;
                 p = \<lparr>path = selectedPort inp, baudRate = selectedBaud inp, dataBits = 8,
                       stopBits = 1, parity = ''none''\<rparr>
             in case construct_result inp of
                  Inl err \<Rightarrow> connect_catch err s1
                | Inr _ \<Rightarrow>
                    showMainMenu
                      (emit [PortNew p]
                         (s1\<lparr>serialConnection := Some p, parser := (parser s1)(p := []),
                              livePorts := p # livePorts s1\<rparr>))))"

subsection \<open>\<^verbatim>\<open>sendCommand\<close>\<close>

text \<open>The inputs: the command the operator enters and whether \<^verbatim>\<open>write\<close> throws.\<close>

definition sendCommand :: "string \<Rightarrow> js_error + unit \<Rightarrow> session \<Rightarrow> session" where
  "sendCommand command write_result s =
     (case serialConnection s of
        None \<Rightarrow> emit [Console Log ''Not connected to any device''] s
      | Some p \<Rightarrow>
          (case write_result of
             Inr _ \<Rightarrow>
               emit [PortWrite p (command @ [CR, LF]), Console Log (''Command sent: '' @ command)] s
           | Inl err \<Rightarrow>
               emit [Console Err (''Failed to send command: '' @ message err)] s))"

subsection \<open>\<^verbatim>\<open>toggleLogging\<close>\<close>

text \<open>
  The inputs: what the operator types at the file name prompt (an empty answer takes
  the prompt's default), the clock's reading for that default, the working directory,
  \<^verbatim>\<open>path.join\<close> of the platform, and the three file system calls. The function
  uses the file name as it is typed.
\<close>

record log_input =
  typed :: string
  now :: string
  cwd :: string
  path_join :: "string \<Rightarrow> string \<Rightarrow> string"
  existsSync :: "string \<Rightarrow> bool"
  mkdirSync :: "string \<Rightarrow> js_error + unit"
  createWriteStream :: "string \<Rightarrow> js_error + unit"

definition defaultFileName :: "string \<Rightarrow> string" where
  "defaultFileName stamp =
     ''serial_log_'' @ map (\<lambda>c. if c = CHR '':'' then CHR ''-'' else c) stamp @ ''.txt''"

definition fileName :: "log_input \<Rightarrow> string" where
  "fileName inp = (if typed inp = [] then defaultFileName (now inp) else typed inp)"

definition logDir :: "log_input \<Rightarrow> string" where
  "logDir inp = path_join inp (cwd inp) ''logs''"

definition logPath_of :: "log_input \<Rightarrow> string" where
  "logPath_of inp = path_join inp (logDir inp) (fileName inp)"

definition log_catch :: "js_error \<Rightarrow> session \<Rightarrow> session" where
  "log_catch err s = emit [Console Err (''Failed to create log file: '' @ message err)] s"

definition startLogging :: "log_input \<Rightarrow> session \<Rightarrow> session" where
  "startLogging inp s =
     (let ws = \<lparr>logPath = logPath_of inp, flags = ''a''\<rparr>
      in case createWriteStream inp (logPath_of inp) of
           Inl err \<Rightarrow> log_catch err s
         | Inr _ \<Rightarrow>
             emit [StreamNew ws, Console Log (''Logging to '' @ logPath_of inp)]
               (s\<lparr>logStream := Some ws\<rparr>))"

definition toggleLogging :: "log_input \<Rightarrow> session \<Rightarrow> session" where
  "toggleLogging inp s =
     (case logStream s of
        Some ws \<Rightarrow>
          emit [StreamEnd ws, Console Log ''Logging stopped''] (s\<lparr>logStream := None\<rparr>)
      | None \<Rightarrow>
          if existsSync inp (logDir inp) then startLogging inp s
          else (case mkdirSync inp (logDir inp) of
                  Inl err \<Rightarrow> log_catch err s
                | Inr _ \<Rightarrow> startLogging inp (emit [Mkdir (logDir inp)] s)))"

section \<open>The menus and the events\<close>

text \<open>
  What happens next is one of: the operator answers a prompt that is waiting, with an
  entry of that prompt's menu; a live port fires one of its events; the process is
  interrupted. After \<^verbatim>\<open>process.exit\<close> nothing happens.

  The menu of a prompt was chosen by \<^verbatim>\<open>showMainMenu\<close> when the prompt was opened, not
  when it is answered: the answer to a prompt of the connected menu can arrive after the
  connection is gone, which is what the tests at the head of \<^verbatim>\<open>sendCommand\<close> and
  \<^verbatim>\<open>disconnectFromDevice\<close> are for, and the answer to a prompt of the disconnected
  menu can arrive after a connection was made.

  An answer runs the operation of its entry to the end, prompts of the operation
  included, before the next event: a run of these steps is one schedule of the program,
  the one in which nothing falls between the prompts of an operation.
\<close>

datatype disconnected_choice = DConnect connect_input | DExit

datatype connected_choice =
    CDisconnect
  | CSend string "js_error + unit"
  | CLog log_input
  | CExit

datatype port_signal =
    Opened
  | Errored js_error
  | Closed
  | Data string "nat \<Rightarrow> string"

datatype event =
    AtDisconnectedMenu disconnected_choice
  | AtConnectedMenu connected_choice
  | FromPort serial_port port_signal
  | Interrupt

definition exit_process :: "int \<Rightarrow> session \<Rightarrow> session" where
  "exit_process code s = s\<lparr>exitCode := Some code\<rparr>"

text \<open>An answered prompt waits no longer.\<close>

definition answered :: "menu \<Rightarrow> session \<Rightarrow> session" where
  "answered m s = s\<lparr>pending := remove1 m (pending s)\<rparr>"

text \<open>What \<^verbatim>\<open>showDisconnectedMenu\<close> does with the answer to its prompt.\<close>

fun disconnectedAction :: "disconnected_choice \<Rightarrow> session \<Rightarrow> session" where
  "disconnectedAction (DConnect inp) s = connectToDevice inp s"
| "disconnectedAction DExit s = exit_process 0 (emit [Console Log ''Goodbye!''] s)"

text \<open>What \<^verbatim>\<open>showConnectedMenu\<close> does with the answer to its prompt.\<close>

fun connectedAction :: "connected_choice \<Rightarrow> session \<Rightarrow> session" where
  "connectedAction CDisconnect s = showMainMenu (disconnectFromDevice s)"
| "connectedAction (CSend command write_result) s =
     showConnectedMenu (sendCommand command write_result s)"
| "connectedAction (CLog inp) s = showConnectedMenu (toggleLogging inp s)"
| "connectedAction CExit s =
     exit_process 0 (emit [Console Log ''Goodbye!''] (disconnectFromDevice s))"

text \<open>
  An event of port \<open>p\<close>. When the port closes on its own it is live no longer, and
  its \<^verbatim>\<open>'close'\<close> handler runs.
\<close>

fun port_handler :: "serial_port \<Rightarrow> port_signal \<Rightarrow> session \<Rightarrow> session" where
  "port_handler p Opened s = onOpen p s"
| "port_handler p (Errored err) s = onError err s"
| "port_handler p Closed s = onClose (s\<lparr>livePorts := remove1 p (livePorts s)\<rparr>)"
| "port_handler p (Data chunk clock) s = receive p chunk clock s"

definition onSIGINT :: "session \<Rightarrow> session" where
  "onSIGINT s =
     exit_process 0 (disconnectFromDevice (emit [Console Log ([LF] @ ''Gracefully shutting down...'')] s))"

text \<open>
  One event. It is \<^term>\<open>None\<close> when the event cannot happen in the state: the process
  has exited, no prompt of that menu is waiting, or the port is not live.
\<close>

fun step :: "event \<Rightarrow> session \<Rightarrow> session option" where
  "step ev s =
     (if exitCode s \<noteq> None then None
      else case ev of
        AtDisconnectedMenu c \<Rightarrow>
          (if DisconnectedMenu \<in> set (pending s)
           then Some (disconnectedAction c (answered DisconnectedMenu s)) else None)
      | AtConnectedMenu c \<Rightarrow>
          (if ConnectedMenu \<in> set (pending s)
           then Some (connectedAction c (answered ConnectedMenu s)) else None)
      | FromPort p sig \<Rightarrow>
          (if p \<in> set (livePorts s) then Some (port_handler p sig s) else None)
      | Interrupt \<Rightarrow> Some (onSIGINT s))"

fun run :: "event list \<Rightarrow> session \<Rightarrow> session option" where
  "run [] s = Some s"
| "run (ev # evs) s = (case step ev s of None \<Rightarrow> None | Some s' \<Rightarrow> run evs s')"

text \<open>
  \<^verbatim>\<open>main\<close> prints the banner and shows the main menu: the events start from this
  state. No error of the model gets past a \<^verbatim>\<open>catch\<close> of \<^verbatim>\<open>connectToDevice\<close>, so the
  handler of \<^verbatim>\<open>main\<close> that exits with code 1 has nothing to catch.
\<close>

definition main :: session where
  "main =
     showMainMenu
       (emit [Console Log ''==================================='',
              Console Log ''       Serial Monitor CLI'',
              Console Log ''===================================''] initial)"

section \<open>Reading the trace\<close>

text \<open>The texts written to log streams, in order, each with its stream.\<close>

fun writes :: "effect list \<Rightarrow> (write_stream \<times> string) list" where
  "writes [] = []"
| "writes (StreamWrite ws text # es) = (ws, text) # writes es"
| "writes (_ # es) = writes es"

text \<open>The ports constructed, in order.\<close>

fun constructed :: "effect list \<Rightarrow> serial_port list" where
  "constructed [] = []"
| "constructed (PortNew p # es) = p # constructed es"
| "constructed (_ # es) = constructed es"

text \<open>The effects of one received line, given the log stream bound at the time.\<close>

definition data_effects :: "write_stream option \<Rightarrow> string \<times> string \<Rightarrow> effect list" where
  "data_effects log ev =
     (case ev of (timestamp, data) \<Rightarrow>
        [Console Log (streamMsg timestamp data)]
        @ (case log of
             None \<Rightarrow> []
           | Some ws \<Rightarrow> [StreamWrite ws (streamMsg timestamp data @ [LF])])
        @ [Console Debug ([LF] @ '' '' @ streamMsg timestamp data)])"

section \<open>Sample sessions\<close>

text \<open>
  The inputs of the scenarios. One port is attached, the operator selects it at 115200
  baud and the port is constructed; later a second port is attached as well and the
  operator selects that. The operator asks for the log file \<^verbatim>\<open>out.txt\<close> in a
  working directory that has no \<^verbatim>\<open>logs\<close> directory yet.
\<close>

definition sample_connect :: connect_input where
  "sample_connect =
     \<lparr>list_result = Inr [PortInfo ''/dev/ttyUSB0'' None None],
      selectedPort = ''/dev/ttyUSB0'', selectedBaud = 115200, construct_result = Inr ()\<rparr>"

definition sample_port :: serial_port where
  "sample_port =
     \<lparr>path = ''/dev/ttyUSB0'', baudRate = 115200, dataBits = 8, stopBits = 1,
      parity = ''none''\<rparr>"

definition second_connect :: connect_input where
  "second_connect =
     \<lparr>list_result = Inr [PortInfo ''/dev/ttyUSB0'' None None, PortInfo ''/dev/ttyUSB1'' None None],
      selectedPort = ''/dev/ttyUSB1'', selectedBaud = 115200, construct_result = Inr ()\<rparr>"

definition second_port :: serial_port where
  "second_port = sample_port\<lparr>path := ''/dev/ttyUSB1''\<rparr>"

definition failing_list :: connect_input where
  "failing_list = sample_connect\<lparr>list_result := Inl (Error ''spawn udevadm ENOENT'')\<rparr>"

definition sample_log :: log_input where
  "sample_log =
     \<lparr>typed = ''out.txt'', now = ''2024-05-01T10:20:30.000Z'', cwd = ''/home/op'',
      path_join = posix_join, existsSync = (\<lambda>_. False),
      mkdirSync = (\<lambda>_. Inr ()), createWriteStream = (\<lambda>_. Inr ())\<rparr>"

definition sample_stream :: write_stream where
  "sample_stream = \<lparr>logPath = ''/home/op/logs/out.txt'', flags = ''a''\<rparr>"

text \<open>The operator types a file name with a directory in it, or one that leads upwards.\<close>

definition nested_log :: log_input where
  "nested_log = sample_log\<lparr>typed := ''sub/out.txt''\<rparr>"

definition escaping_log :: log_input where
  "escaping_log = sample_log\<lparr>typed := ''../x.txt''\<rparr>"

text \<open>The session after the operator connected, and after the operator then started logging.\<close>

definition connected :: session where
  "connected = connectToDevice sample_connect (answered DisconnectedMenu main)"

definition logging :: session where
  "logging = showConnectedMenu (toggleLogging sample_log (answered ConnectedMenu connected))"

text \<open>
  The session after the operator connected and disconnected, after the operator then
  connected again at one of the two prompts this leaves, and after the operator
  connected to the second port at the other.
\<close>



definition disconnected :: session where
  "disconnected = connectedAction CDisconnect (answered ConnectedMenu connected)"

definition reconnected :: session where
  "reconnected = connectToDevice sample_connect (answered DisconnectedMenu disconnected)"

definition doubled :: session where
  "doubled = connectToDevice second_connect (answered DisconnectedMenu reconnected)"

section \<open>Basic facts\<close>

lemma emit_fields [simp]:
  "serialConnection (emit es s) = serialConnection s"
  "logStream (emit es s) = logStream s"
  "parser (emit es s) = parser s"
  "livePorts (emit es s) = livePorts s"
  "pending (emit es s) = pending s"
  "exitCode (emit es s) = exitCode s"
  "trace (emit es s) = trace s @ es"
  by (simp_all add: emit_def)

lemma fresh_emit [simp]: "fresh s (emit es s) = es"
  by (simp add: fresh_def)

lemma fresh_same [simp]: "fresh s s = []"
  by (simp add: fresh_def)

lemma emit_emit [simp]: "emit es' (emit es s) = emit (es @ es') s"
  by (simp add: emit_def)

lemma emit_Nil [simp]: "emit [] s = s"
  by (simp add: emit_def)

lemma parser_same: "parser s p = b \<Longrightarrow> s\<lparr>parser := (parser s)(p := b)\<rparr> = s"
  by auto

declare step.simps [simp del]

lemma writes_append [simp]: "writes (es @ es') = writes es @ writes es'"
  by (induction es rule: writes.induct) simp_all

lemma constructed_append [simp]: "constructed (es @ es') = constructed es @ constructed es'"
  by (induction es rule: constructed.induct) simp_all

subsection \<open>What showing a menu changes\<close>

lemma showDisconnectedMenu_fields [simp]:
  "serialConnection (showDisconnectedMenu s) = serialConnection s"
  "logStream (showDisconnectedMenu s) = logStream s"
  "parser (showDisconnectedMenu s) = parser s"
  "livePorts (showDisconnectedMenu s) = livePorts s"
  "exitCode (showDisconnectedMenu s) = exitCode s"
  "trace (showDisconnectedMenu s) = trace s"
  "pending (showDisconnectedMenu s) = pending s @ [DisconnectedMenu]"
  by (simp_all add: showDisconnectedMenu_def)

lemma showMainMenu_fields [simp]:
  "serialConnection (showMainMenu s) = serialConnection s"
  "logStream (showMainMenu s) = logStream s"
  "parser (showMainMenu s) = parser s"
  "livePorts (showMainMenu s) = livePorts s"
  "exitCode (showMainMenu s) = exitCode s"
  "trace (showMainMenu s) = trace s"
  "pending (showMainMenu s)
     = pending s @ [if serialConnection s = None then DisconnectedMenu else ConnectedMenu]"
  by (auto simp: showMainMenu_def showConnectedMenu_def split: option.split)

lemma showConnectedMenu_bound [simp]:
  "serialConnection s = Some p \<Longrightarrow>
     showConnectedMenu s = s\<lparr>pending := pending s @ [ConnectedMenu]\<rparr>"
  by (simp add: showConnectedMenu_def)

lemma answered_fields [simp]:
  "serialConnection (answered m s) = serialConnection s"
  "logStream (answered m s) = logStream s"
  "parser (answered m s) = parser s"
  "livePorts (answered m s) = livePorts s"
  "exitCode (answered m s) = exitCode s"
  "trace (answered m s) = trace s"
  "pending (answered m s) = remove1 m (pending s)"
  by (simp_all add: answered_def)

lemma connect_catch_is_the_catch:
  "connect_catch err s
     = showDisconnectedMenu
         (emit [Console Err (''Connection error: '' @ message err)]
            (s\<lparr>serialConnection := None\<rparr>))"
  by (simp add: connect_catch_def showMainMenu_def)

subsection \<open>Received lines\<close>

lemma onData_emit:
  "onData timestamp data s = emit (data_effects (logStream s) (timestamp, data)) s"
  by (simp add: onData_def data_effects_def Let_def split: option.split)

lemma onLines_Nil [simp]: "onLines [] s = s"
  by (simp add: onLines_def)

lemma onLines_Cons [simp]:
  "onLines ((timestamp, data) # evs) s = onLines evs (onData timestamp data s)"
  by (simp add: onLines_def)

lemma onLines_emit: "onLines evs s = emit (concat (map (data_effects (logStream s)) evs)) s"
proof (induction evs arbitrary: s)
  case Nil
  show ?case by simp
next
  case (Cons ev evs)
  obtain timestamp data where ev: "ev = (timestamp, data)" by (cases ev)
  show ?case
    by (simp add: ev Cons.IH onData_emit)
qed

lemma writes_data_effects:
  "writes (concat (map (data_effects (Some ws)) evs))
     = map (\<lambda>(timestamp, data). (ws, ''['' @ timestamp @ ''] '' @ data @ [LF])) evs"
  by (induction evs) (auto simp: data_effects_def streamMsg_def)

subsection \<open>The sample sessions\<close>

lemma main_fields:
  "serialConnection main = None" "logStream main = None" "exitCode main = None"
  "livePorts main = []" "pending main = [DisconnectedMenu]"
  by (simp_all add: main_def initial_def)

lemma main_disconnected: "serialConnection main = None"
  by (rule main_fields)

lemma connected_fields:
  "serialConnection connected = Some sample_port" "logStream connected = None"
  "exitCode connected = None" "livePorts connected = [sample_port]"
  "pending connected = [ConnectedMenu]"
  "PortNew sample_port \<in> set (trace connected)"
  by (simp_all add: connected_def connectToDevice_def sample_connect_def sample_port_def
      Let_def main_fields)

lemma connected_port: "serialConnection connected = Some sample_port"
  by (rule connected_fields)

lemma connected_no_log: "logStream connected = None"
  by (rule connected_fields)

subsection \<open>Joining a plain name onto an absolute path\<close>

lemma split_sep_plain: "CHR ''/'' \<notin> set s \<Longrightarrow> split_sep s = [s]"
  by (induction s) auto

lemma split_sep_at: "CHR ''/'' \<notin> set s \<Longrightarrow> split_sep (s @ CHR ''/'' # rest) = s # split_sep rest"
  by (induction s) auto

lemma split_sep_join:
  "list_all plain_name segs \<Longrightarrow> segs \<noteq> [] \<Longrightarrow> CHR ''/'' \<notin> set n \<Longrightarrow>
     split_sep (join_sep segs @ CHR ''/'' # n) = segs @ [n]"
proof (induction segs rule: join_sep.induct)
  case 1
  then show ?case by simp
next
  case (2 seg)
  then show ?case by (simp add: plain_name_def split_sep_at split_sep_plain)
next
  case (3 seg s segs)
  then show ?case by (simp add: plain_name_def split_sep_at)
qed

lemma normalizeString_plain:
  "list_all plain_name segs \<Longrightarrow> normalizeString a res segs = res @ segs"
  by (induction segs arbitrary: res) (auto simp: plain_name_def)

lemma join_sep_snoc:
  "segs \<noteq> [] \<Longrightarrow> join_sep (segs @ [n]) = join_sep segs @ ''/'' @ n"
  by (induction segs rule: join_sep.induct) simp_all

lemma join_sep_empty: "list_all plain_name segs \<Longrightarrow> join_sep segs = [] \<longleftrightarrow> segs = []"
  by (induction segs rule: join_sep.induct) (simp_all add: plain_name_def)

lemma posix_join_plain:
  assumes segs: "list_all plain_name segs" and n: "plain_name n"
  shows "posix_join (abs_path segs) n = abs_path (segs @ [n])"
proof -
  from n have n0: "n \<noteq> []" "CHR ''/'' \<notin> set n"
    by (auto simp: plain_name_def)
  then have "last n \<noteq> CHR ''/''"
    by (metis last_in_set)
  with n0 have n': "n \<noteq> []" "CHR ''/'' \<notin> set n" "last n \<noteq> CHR ''/''"
    by simp_all
  have all: "list_all plain_name (segs @ [n])" using segs n by simp
  have sp: "normalizeString False [] (split_sep (abs_path segs @ ''/'' @ n)) = segs @ [n]"
  proof (cases "segs = []")
    case True
    with n n' show ?thesis
      by (simp add: abs_path_def split_sep_plain plain_name_def)
  next
    case False
    with segs n' have "split_sep (abs_path segs @ ''/'' @ n) = [] # segs @ [n]"
      by (simp add: abs_path_def split_sep_join)
    with all show ?thesis by (simp add: normalizeString_plain)
  qed
  have ne: "join_sep (segs @ [n]) \<noteq> []"
    using all join_sep_empty [of "segs @ [n]"] by simp
  show ?thesis
    using n' ne
    by (simp add: posix_join_def abs_path_def normalize_def Let_def
        sp [unfolded abs_path_def, simplified])
qed

lemma dirname_plain: "CHR ''/'' \<notin> set n \<Longrightarrow> dirname (d @ ''/'' @ n) = d"
proof -
  assume "CHR ''/'' \<notin> set n"
  then have "dropWhile (\<lambda>c. c \<noteq> CHR ''/'') (rev n @ CHR ''/'' # rev d) = CHR ''/'' # rev d"
    by (subst dropWhile_append2) auto
  then show ?thesis by (simp add: dirname_def)
qed

lemma abs_path_snoc:
  "abs_path (segs @ [a, b]) = abs_path (segs @ [a]) @ ''/'' @ b"
  using join_sep_snoc [of "segs @ [a]" b] by (simp add: abs_path_def)

subsection \<open>The paths of the samples\<close>

lemma sample_paths:
  "logDir sample_log = ''/home/op/logs''"
  "logPath_of sample_log = ''/home/op/logs/out.txt''"
  by (simp_all add: logDir_def logPath_of_def fileName_def sample_log_def posix_join_def
      normalize_def Let_def)

lemma nested_paths:
  "logDir nested_log = ''/home/op/logs''"
  "logPath_of nested_log = ''/home/op/logs/sub/out.txt''"
  "dirname (logPath_of nested_log) = ''/home/op/logs/sub''"
  by (simp_all add: logDir_def logPath_of_def fileName_def nested_log_def sample_log_def
      posix_join_def normalize_def Let_def dirname_def)

lemma escaping_paths:
  "logDir escaping_log = ''/home/op/logs''"
  "logPath_of escaping_log = ''/home/op/x.txt''"
  by (simp_all add: logDir_def logPath_of_def fileName_def escaping_log_def sample_log_def
      posix_join_def normalize_def Let_def)

subsection \<open>Starting and stopping the log\<close>

lemma toggleLogging_start:
  assumes "logStream s = None"
    and "existsSync inp (logDir inp) \<or> mkdirSync inp (logDir inp) = Inr ()"
    and "createWriteStream inp (logPath_of inp) = Inr ()"
  shows "toggleLogging inp s
     = emit ((if existsSync inp (logDir inp) then [] else [Mkdir (logDir inp)])
             @ [StreamNew \<lparr>logPath = logPath_of inp, flags = ''a''\<rparr>,
                Console Log (''Logging to '' @ logPath_of inp)])
         (s\<lparr>logStream := Some \<lparr>logPath = logPath_of inp, flags = ''a''\<rparr>\<rparr>)"
  using assms
  by (auto simp: toggleLogging_def startLogging_def emit_def Let_def)

lemma toggleLogging_stop:
  "logStream s = Some ws \<Longrightarrow>
     toggleLogging inp s
       = emit [StreamEnd ws, Console Log ''Logging stopped''] (s\<lparr>logStream := None\<rparr>)"
  by (simp add: toggleLogging_def)

lemma sample_fs:
  "existsSync sample_log d = False" "mkdirSync sample_log d = Inr ()"
  "createWriteStream sample_log d = Inr ()"
  "existsSync nested_log d = False" "mkdirSync nested_log d = Inr ()"
  "createWriteStream nested_log d = Inr ()"
  "existsSync escaping_log d = False" "mkdirSync escaping_log d = Inr ()"
  "createWriteStream escaping_log d = Inr ()"
  by (simp_all add: sample_log_def nested_log_def escaping_log_def)

lemma toggle_sample:
  "toggleLogging sample_log (answered ConnectedMenu connected)
     = emit [Mkdir ''/home/op/logs'', StreamNew sample_stream,
             Console Log ''Logging to /home/op/logs/out.txt'']
         ((answered ConnectedMenu connected)\<lparr>logStream := Some sample_stream\<rparr>)"
  by (subst toggleLogging_start)
     (simp_all add: connected_fields sample_fs sample_paths sample_stream_def)

lemma logging_fields:
  "serialConnection logging = Some sample_port" "logStream logging = Some sample_stream"
  "exitCode logging = None" "livePorts logging = [sample_port]"
  "pending logging = [ConnectedMenu]"
  by (simp_all add: logging_def toggle_sample connected_fields)

lemma logging_port: "serialConnection logging = Some sample_port"
  by (rule logging_fields)

lemma logging_stream: "logStream logging = Some sample_stream"
  by (rule logging_fields)

lemma connected_run:
  "run [AtDisconnectedMenu (DConnect sample_connect)] main = Some connected"
  by (simp add: step.simps main_fields connected_def)

lemma logging_step:
  "step (AtConnectedMenu (CLog sample_log)) connected = Some logging"
  by (simp add: step.simps connected_fields logging_def)

lemma logging_run:
  "run [AtDisconnectedMenu (DConnect sample_connect), AtConnectedMenu (CLog sample_log)] main
     = Some logging"
  by (simp add: step.simps main_fields connected_def [symmetric] connected_fields
      logging_def)

lemma onError_fields [simp]:
  "serialConnection (onError err s) = None"
  "logStream (onError err s) = logStream s"
  "parser (onError err s) = parser s"
  "livePorts (onError err s) = livePorts s"
  "exitCode (onError err s) = exitCode s"
  "trace (onError err s) = trace s @ [Console Err (''Serial port error: '' @ message err)]"
  "pending (onError err s) = pending s @ [DisconnectedMenu]"
  by (simp_all add: onError_def)

section \<open>Disconnecting and sending\<close>

text \<open>
  C7. \<^verbatim>\<open>disconnect()\<close> in a session that is already disconnected is a no-op: the
  session it returns is the session it was given, so no variable changes and nothing is
  added to the trace: no port is closed, no stream is ended, nothing is printed.
\<close>

theorem disconnect_when_disconnected:
  "serialConnection s = None \<Longrightarrow>
     disconnectFromDevice s = s \<and> fresh s (disconnectFromDevice s) = []"
  by (simp add: disconnectFromDevice_def)

theorem disconnect_when_disconnected_witness:
  "serialConnection main = None \<and> disconnectFromDevice main = main
     \<and> fresh main (disconnectFromDevice main) = []"
  using disconnect_when_disconnected [OF main_disconnected] main_disconnected by blast

text \<open>
  C10. \<^verbatim>\<open>send\<close> in a disconnected session prints that no device is connected and
  does nothing else: that message is its only effect, so nothing is written to a port,
  and but for the trace the session is unchanged.
\<close>

theorem send_when_disconnected:
  "serialConnection s = None \<Longrightarrow>
     sendCommand command write_result s
       = s\<lparr>trace := trace s @ [Console Log ''Not connected to any device'']\<rparr>
     \<and> fresh s (sendCommand command write_result s)
       = [Console Log ''Not connected to any device'']"
  by (simp add: sendCommand_def emit_def fresh_def)

theorem send_when_disconnected_witness:
  "serialConnection main = None
   \<and> sendCommand ''AT'' (Inr ()) main
       = main\<lparr>trace := trace main @ [Console Log ''Not connected to any device'']\<rparr>
   \<and> fresh main (sendCommand ''AT'' (Inr ()) main)
       = [Console Log ''Not connected to any device'']"
  using send_when_disconnected [OF main_disconnected, of "''AT''" "Inr ()"] main_disconnected
  by blast

text \<open>
  C6. When \<^verbatim>\<open>send\<close> runs in a connected session and the write throws, the error is
  printed and that is the only effect; and whatever the write does, \<^verbatim>\<open>send\<close> leaves
  the connection bound, the log destination as it was and the process running.
\<close>

theorem send_failure_keeps_state:
  "serialConnection s = Some p \<Longrightarrow>
     sendCommand command (Inl err) s
       = s\<lparr>trace := trace s @ [Console Err (''Failed to send command: '' @ message err)]\<rparr>
     \<and> serialConnection (sendCommand command write_result s) = Some p
     \<and> logStream (sendCommand command write_result s) = logStream s
     \<and> parser (sendCommand command write_result s) = parser s
     \<and> exitCode (sendCommand command write_result s) = exitCode s"
  by (simp add: sendCommand_def emit_def split: sum.split)

theorem send_failure_keeps_state_witness:
  "serialConnection logging = Some sample_port
   \<and> sendCommand ''AT'' (Inl (Error ''EIO'')) logging
       = logging\<lparr>trace := trace logging @ [Console Err ''Failed to send command: EIO'']\<rparr>
   \<and> serialConnection (sendCommand ''AT'' (Inl (Error ''EIO'')) logging) = Some sample_port
   \<and> logStream (sendCommand ''AT'' (Inl (Error ''EIO'')) logging) = Some sample_stream"
  using send_failure_keeps_state [OF logging_port, of "''AT''" "Error ''EIO''" "Inl (Error ''EIO'')"]
    logging_port logging_stream
  by simp

section \<open>Closing the connection\<close>

text \<open>
  \<^verbatim>\<open>disconnectFromDevice\<close> and the handler of \<^verbatim>\<open>'close'\<close> both end an open log
  stream and unbind it. In \<^verbatim>\<open>disconnectFromDevice\<close> it is the handler that does so,
  which runs before the callback.
\<close>

lemma onClose_closes_log:
  "logStream s = Some ws \<Longrightarrow>
     fresh s (onClose s) = [Console Log ''Serial connection closed'', StreamEnd ws]
     \<and> serialConnection (onClose s) = None
     \<and> logStream (onClose s) = None"
  by (simp add: onClose_def fresh_def Let_def)

lemma disconnect_closes_log:
  "serialConnection s = Some p \<Longrightarrow> logStream s = Some ws \<Longrightarrow>
     fresh s (disconnectFromDevice s)
       = [PortClose p, Console Log ''Serial connection closed'', StreamEnd ws,
          Console Log ''Disconnected from serial device'']
     \<and> serialConnection (disconnectFromDevice s) = None
     \<and> logStream (disconnectFromDevice s) = None"
  by (simp add: disconnectFromDevice_def onClose_def fresh_def Let_def)

text \<open>
  C1. The handler of \<^verbatim>\<open>'error'\<close> does not: it prints the error, unbinds the
  connection and shows the menu, and that is all. In the session that connected and
  started logging to \<^verbatim>\<open>out.txt\<close>, an error event of the port leaves the session
  with no connection and with the log stream still bound and never ended.
\<close>

theorem error_event_leaves_log_open:
  "run [AtDisconnectedMenu (DConnect sample_connect), AtConnectedMenu (CLog sample_log),
        FromPort sample_port (Errored (Error ''EIO''))] main
     = Some (onError (Error ''EIO'') logging)
   \<and> serialConnection (onError (Error ''EIO'') logging) = None
   \<and> logStream (onError (Error ''EIO'') logging) = Some sample_stream
   \<and> fresh logging (onError (Error ''EIO'') logging) = [Console Err ''Serial port error: EIO'']"
proof -
  have "run [AtDisconnectedMenu (DConnect sample_connect), AtConnectedMenu (CLog sample_log),
          FromPort sample_port (Errored (Error ''EIO''))] main
        = Some (onError (Error ''EIO'') logging)"
    by (simp add: step.simps main_fields connected_def [symmetric] connected_fields
        logging_def [symmetric] logging_fields)
  then show ?thesis
    using logging_stream by (simp add: fresh_def)
qed

section \<open>Failing to connect\<close>

lemma connect_catch_fields [simp]:
  "serialConnection (connect_catch err s) = None"
  "logStream (connect_catch err s) = logStream s"
  "livePorts (connect_catch err s) = livePorts s"
  "exitCode (connect_catch err s) = exitCode s"
  "trace (connect_catch err s) = trace s @ [Console Err (''Connection error: '' @ message err)]"
  "pending (connect_catch err s) = pending s @ [DisconnectedMenu]"
  by (simp_all add: connect_catch_def)

lemma connect_constructs:
  assumes "list_result inp = Inr ports" and "ports \<noteq> []" and "construct_result inp = Inr ()"
  shows "serialConnection (connectToDevice inp s)
           = Some \<lparr>path = selectedPort inp, baudRate = selectedBaud inp, dataBits = 8,
                   stopBits = 1, parity = ''none''\<rparr>"
    and "parser (connectToDevice inp s)
           \<lparr>path = selectedPort inp, baudRate = selectedBaud inp, dataBits = 8,
            stopBits = 1, parity = ''none''\<rparr> = []"
    and "livePorts (connectToDevice inp s)
           = \<lparr>path = selectedPort inp, baudRate = selectedBaud inp, dataBits = 8,
              stopBits = 1, parity = ''none''\<rparr> # livePorts s"
    and "pending (connectToDevice inp s) = pending s @ [ConnectedMenu]"
    and "exitCode (connectToDevice inp s) = exitCode s"
    and "logStream (connectToDevice inp s) = logStream s"
    and "fresh s (connectToDevice inp s)
           = [Console Log (''Connecting to '' @ selectedPort inp @ '' at ''
                @ digits (selectedBaud inp) @ '' baud...''),
              PortNew \<lparr>path = selectedPort inp, baudRate = selectedBaud inp, dataBits = 8,
                       stopBits = 1, parity = ''none''\<rparr>]"
  using assms by (simp_all add: connectToDevice_def Let_def fresh_def)

text \<open>
  C9, as the code has it. When connect fails, the session ends with no connection
  bound and the disconnected menu shown, the error is printed, and no port is
  constructed again. If \<^verbatim>\<open>SerialPort.list()\<close> or the constructor throws, no connection
  is bound at any point. A failure to open the port (busy, permission denied, no such
  path) is not thrown: the constructor returns, and the failure arrives as the port's
  \<^verbatim>\<open>'error'\<close> event. From the construction until that event the port is bound as the
  connection and the connected menu is on offer.
\<close>

theorem connect_failure_ends_disconnected:
  assumes "exitCode s = None"
  shows "(list_result inp = Inl err
            \<or> (\<exists>ports. list_result inp = Inr ports \<and> ports \<noteq> [] \<and> construct_result inp = Inl err)
          \<longrightarrow>
            serialConnection (connectToDevice inp s) = None
            \<and> pending (connectToDevice inp s) = pending s @ [DisconnectedMenu]
            \<and> logStream (connectToDevice inp s) = logStream s
            \<and> constructed (fresh s (connectToDevice inp s)) = []
            \<and> last (fresh s (connectToDevice inp s))
                 = Console Err (''Connection error: '' @ message err))
     \<and> ((\<exists>ports. list_result inp = Inr ports \<and> ports \<noteq> []) \<and> construct_result inp = Inr ()
          \<longrightarrow>
            serialConnection (connectToDevice inp s)
              = Some \<lparr>path = selectedPort inp, baudRate = selectedBaud inp, dataBits = 8,
                      stopBits = 1, parity = ''none''\<rparr>
            \<and> pending (connectToDevice inp s) = pending s @ [ConnectedMenu]
            \<and> step (FromPort \<lparr>path = selectedPort inp, baudRate = selectedBaud inp, dataBits = 8,
                               stopBits = 1, parity = ''none''\<rparr> (Errored err))
                 (connectToDevice inp s)
                 = Some (onError err (connectToDevice inp s))
            \<and> serialConnection (onError err (connectToDevice inp s)) = None
            \<and> pending (onError err (connectToDevice inp s))
                 = pending s @ [ConnectedMenu, DisconnectedMenu]
            \<and> fresh (connectToDevice inp s) (onError err (connectToDevice inp s))
                 = [Console Err (''Serial port error: '' @ message err)])"
proof (intro conjI impI)
  assume f: "list_result inp = Inl err
            \<or> (\<exists>ports. list_result inp = Inr ports \<and> ports \<noteq> [] \<and> construct_result inp = Inl err)"
  then show "serialConnection (connectToDevice inp s) = None"
    and "pending (connectToDevice inp s) = pending s @ [DisconnectedMenu]"
    and "logStream (connectToDevice inp s) = logStream s"
    and "constructed (fresh s (connectToDevice inp s)) = []"
    and "last (fresh s (connectToDevice inp s))
                 = Console Err (''Connection error: '' @ message err)"
    by (auto simp: connectToDevice_def Let_def fresh_def)
next
  assume ok: "(\<exists>ports. list_result inp = Inr ports \<and> ports \<noteq> []) \<and> construct_result inp = Inr ()"
  then obtain ports where l: "list_result inp = Inr ports" "ports \<noteq> []"
    and c: "construct_result inp = Inr ()" by blast
  note cc = connect_constructs [OF l c, of s]
  show "serialConnection (connectToDevice inp s)
              = Some \<lparr>path = selectedPort inp, baudRate = selectedBaud inp, dataBits = 8,
                      stopBits = 1, parity = ''none''\<rparr>"
    by (rule cc)
  show "pending (connectToDevice inp s) = pending s @ [ConnectedMenu]"
    by (rule cc)
  show "step (FromPort \<lparr>path = selectedPort inp, baudRate = selectedBaud inp, dataBits = 8,
                               stopBits = 1, parity = ''none''\<rparr> (Errored err))
                 (connectToDevice inp s)
                 = Some (onError err (connectToDevice inp s))"
    using assms by (simp add: step.simps cc)
  show "serialConnection (onError err (connectToDevice inp s)) = None"
    by simp
  show "pending (onError err (connectToDevice inp s))
                 = pending s @ [ConnectedMenu, DisconnectedMenu]"
    by (simp add: cc)
  show "fresh (connectToDevice inp s) (onError err (connectToDevice inp s))
                 = [Console Err (''Serial port error: '' @ message err)]"
    by (simp add: fresh_def)
qed

theorem connect_failure_ends_disconnected_witness:
  "exitCode (answered DisconnectedMenu main) = None
   \<and> list_result failing_list = Inl (Error ''spawn udevadm ENOENT'')
   \<and> serialConnection (connectToDevice failing_list (answered DisconnectedMenu main)) = None
   \<and> pending (connectToDevice failing_list (answered DisconnectedMenu main)) = [DisconnectedMenu]
   \<and> last (fresh (answered DisconnectedMenu main)
              (connectToDevice failing_list (answered DisconnectedMenu main)))
        = Console Err ''Connection error: spawn udevadm ENOENT''
   \<and> list_result sample_connect = Inr [PortInfo ''/dev/ttyUSB0'' None None]
   \<and> [PortInfo ''/dev/ttyUSB0'' None None] \<noteq> []
   \<and> construct_result sample_connect = Inr ()
   \<and> serialConnection connected = Some sample_port
   \<and> step (FromPort sample_port (Errored (Error ''Resource busy''))) connected
        = Some (onError (Error ''Resource busy'') connected)
   \<and> serialConnection (onError (Error ''Resource busy'') connected) = None
   \<and> pending (onError (Error ''Resource busy'') connected) = [ConnectedMenu, DisconnectedMenu]
   \<and> fresh connected (onError (Error ''Resource busy'') connected)
        = [Console Err ''Serial port error: Resource busy'']"
proof -
  let ?s = "answered DisconnectedMenu main"
  have run: "exitCode ?s = None" and p0: "pending ?s = []"
    by (simp_all add: main_fields)
  have f: "list_result failing_list = Inl (Error ''spawn udevadm ENOENT'')"
    by (simp add: failing_list_def)
  have ok: "list_result sample_connect = Inr [PortInfo ''/dev/ttyUSB0'' None None]"
    "[PortInfo ''/dev/ttyUSB0'' None None] \<noteq> []"
    "construct_result sample_connect = Inr ()"
    by (simp_all add: sample_connect_def)
  have p: "\<lparr>path = selectedPort sample_connect, baudRate = selectedBaud sample_connect,
      dataBits = 8, stopBits = 1, parity = ''none''\<rparr> = sample_port"
    by (simp add: sample_connect_def sample_port_def)
  from connect_failure_ends_disconnected [OF run, of failing_list "Error ''spawn udevadm ENOENT''"] f
  have a: "serialConnection (connectToDevice failing_list ?s) = None"
    "pending (connectToDevice failing_list ?s) = [DisconnectedMenu]"
    "last (fresh ?s (connectToDevice failing_list ?s))
        = Console Err ''Connection error: spawn udevadm ENOENT''"
    by (simp_all add: main_fields)
  from connect_failure_ends_disconnected [OF run, of sample_connect "Error ''Resource busy''"] ok
  have b: "serialConnection connected = Some sample_port"
    "step (FromPort sample_port (Errored (Error ''Resource busy''))) connected
        = Some (onError (Error ''Resource busy'') connected)"
    "serialConnection (onError (Error ''Resource busy'') connected) = None"
    "pending (onError (Error ''Resource busy'') connected) = [ConnectedMenu, DisconnectedMenu]"
    "fresh connected (onError (Error ''Resource busy'') connected)
        = [Console Err ''Serial port error: Resource busy'']"
    unfolding p connected_def [symmetric] by (auto simp: main_fields connected_fields)
  show ?thesis
    by (intro conjI) (rule run f a ok b)+
qed

text \<open>
  C9, as the claim has it, fails where the port is busy: the constructor returns, the
  port is bound and the connected menu is shown, and only the port's \<^verbatim>\<open>'error'\<close>
  event unbinds it.
\<close>

theorem connect_failure_bound_meanwhile:
  "run [AtDisconnectedMenu (DConnect sample_connect)] main = Some connected
   \<and> serialConnection connected = Some sample_port
   \<and> pending connected = [ConnectedMenu]
   \<and> run [AtDisconnectedMenu (DConnect sample_connect),
           FromPort sample_port (Errored (Error ''Resource busy''))] main
        = Some (onError (Error ''Resource busy'') connected)
   \<and> serialConnection (onError (Error ''Resource busy'') connected) = None"
  by (simp add: step.simps main_fields connected_def [symmetric] connected_fields)

section \<open>Logging\<close>

text \<open>
  C8, as the code has it. \<^verbatim>\<open>toggleLogging\<close> toggles the Log Destination. With none
  open, and the file system calls succeeding, it makes the directory
  \<^verbatim>\<open>path.join(cwd, 'logs')\<close> unless it exists, and no other directory; it creates a
  stream in append mode on \<^verbatim>\<open>path.join\<close> of that directory and the file name (what
  the operator typed, or the default made from the clock), and binds it. With one open,
  it ends the stream and unbinds it. On POSIX, for an absolute normalised working
  directory and a file name that is a plain name, the directory it makes is the one the
  target file lies in.
\<close>

theorem toggle_logging_makes_logs:
  assumes "existsSync inp (logDir inp) \<or> mkdirSync inp (logDir inp) = Inr ()"
    and "createWriteStream inp (logPath_of inp) = Inr ()"
  shows "toggleLogging inp s =
     (case logStream s of
        None \<Rightarrow>
          emit ((if existsSync inp (logDir inp) then [] else [Mkdir (logDir inp)])
                @ [StreamNew \<lparr>logPath = logPath_of inp, flags = ''a''\<rparr>,
                   Console Log (''Logging to '' @ logPath_of inp)])
            (s\<lparr>logStream := Some \<lparr>logPath = logPath_of inp, flags = ''a''\<rparr>\<rparr>)
      | Some ws \<Rightarrow>
          emit [StreamEnd ws, Console Log ''Logging stopped''] (s\<lparr>logStream := None\<rparr>))
     \<and> logDir inp = path_join inp (cwd inp) ''logs''
     \<and> logPath_of inp
         = path_join inp (logDir inp)
             (if typed inp = []
              then ''serial_log_'' @ map (\<lambda>c. if c = CHR '':'' then CHR ''-'' else c) (now inp)
                     @ ''.txt''
              else typed inp)
     \<and> (path_join inp = posix_join \<and> cwd inp = abs_path segs \<and> list_all plain_name segs
          \<and> plain_name (fileName inp)
        \<longrightarrow> logDir inp = abs_path (segs @ [''logs''])
            \<and> logPath_of inp = logDir inp @ ''/'' @ fileName inp
            \<and> dirname (logPath_of inp) = logDir inp)"
proof (intro conjI impI)
  show "toggleLogging inp s =
     (case logStream s of
        None \<Rightarrow>
          emit ((if existsSync inp (logDir inp) then [] else [Mkdir (logDir inp)])
                @ [StreamNew \<lparr>logPath = logPath_of inp, flags = ''a''\<rparr>,
                   Console Log (''Logging to '' @ logPath_of inp)])
            (s\<lparr>logStream := Some \<lparr>logPath = logPath_of inp, flags = ''a''\<rparr>\<rparr>)
      | Some ws \<Rightarrow>
          emit [StreamEnd ws, Console Log ''Logging stopped''] (s\<lparr>logStream := None\<rparr>))"
    using assms
    by (auto simp: toggleLogging_def startLogging_def emit_def Let_def split: option.split)
  show "logDir inp = path_join inp (cwd inp) ''logs''"
    by (simp add: logDir_def)
  show "logPath_of inp
         = path_join inp (logDir inp)
             (if typed inp = []
              then ''serial_log_'' @ map (\<lambda>c. if c = CHR '':'' then CHR ''-'' else c) (now inp)
                     @ ''.txt''
              else typed inp)"
    by (simp add: logPath_of_def fileName_def defaultFileName_def)
next
  assume h: "path_join inp = posix_join \<and> cwd inp = abs_path segs \<and> list_all plain_name segs
          \<and> plain_name (fileName inp)"
  have logs: "plain_name ''logs''" by (simp add: plain_name_def)
  from h logs show d: "logDir inp = abs_path (segs @ [''logs''])"
    by (simp add: logDir_def posix_join_plain)
  from h logs have "posix_join (abs_path (segs @ [''logs''])) (fileName inp)
      = abs_path ((segs @ [''logs'']) @ [fileName inp])"
    by (intro posix_join_plain) simp_all
  with h d show p: "logPath_of inp = logDir inp @ ''/'' @ fileName inp"
    by (simp add: logPath_of_def abs_path_snoc)
  from h have "CHR ''/'' \<notin> set (fileName inp)" by (simp add: plain_name_def)
  then show "dirname (logPath_of inp) = logDir inp"
    unfolding p by (rule dirname_plain)
qed

theorem toggle_logging_makes_logs_witness:
  "(existsSync sample_log (logDir sample_log) \<or> mkdirSync sample_log (logDir sample_log) = Inr ())
   \<and> createWriteStream sample_log (logPath_of sample_log) = Inr ()
   \<and> path_join sample_log = posix_join
   \<and> cwd sample_log = abs_path [''home'', ''op'']
   \<and> list_all plain_name [''home'', ''op'']
   \<and> plain_name (fileName sample_log)
   \<and> serialConnection connected = Some sample_port
   \<and> logStream connected = None
   \<and> logStream (toggleLogging sample_log connected) = Some sample_stream
   \<and> fresh connected (toggleLogging sample_log connected)
       = [Mkdir ''/home/op/logs'', StreamNew sample_stream,
          Console Log ''Logging to /home/op/logs/out.txt'']
   \<and> dirname (logPath_of sample_log) = ''/home/op/logs''
   \<and> logStream logging = Some sample_stream
   \<and> logStream (toggleLogging sample_log logging) = None
   \<and> fresh logging (toggleLogging sample_log logging)
       = [StreamEnd sample_stream, Console Log ''Logging stopped'']"
proof -
  have h1: "existsSync sample_log (logDir sample_log) \<or> mkdirSync sample_log (logDir sample_log) = Inr ()"
    and h2: "createWriteStream sample_log (logPath_of sample_log) = Inr ()"
    by (simp_all add: sample_fs)
  have h3: "path_join sample_log = posix_join"
    and h4: "cwd sample_log = abs_path [''home'', ''op'']"
    and h5: "list_all plain_name [''home'', ''op'']"
    and h6: "plain_name (fileName sample_log)"
    by (simp_all add: sample_log_def abs_path_def plain_name_def fileName_def)
  note th = toggle_logging_makes_logs [OF h1 h2, where segs = "[''home'', ''op'']"]
  from th [of connected] have on: "toggleLogging sample_log connected
      = emit [Mkdir ''/home/op/logs'', StreamNew sample_stream,
          Console Log ''Logging to /home/op/logs/out.txt'']
          (connected\<lparr>logStream := Some sample_stream\<rparr>)"
    by (simp add: connected_fields sample_paths sample_fs sample_stream_def)
  from th [of logging] have off: "toggleLogging sample_log logging
      = emit [StreamEnd sample_stream, Console Log ''Logging stopped'']
          (logging\<lparr>logStream := None\<rparr>)"
    by (simp add: logging_fields)
  from th [of connected] h3 h4 h5 h6 have "dirname (logPath_of sample_log) = logDir sample_log"
    by blast
  then have dn: "dirname (logPath_of sample_log) = ''/home/op/logs''"
    by (simp add: sample_paths)
  have c1: "logStream (toggleLogging sample_log connected) = Some sample_stream"
    and c2: "fresh connected (toggleLogging sample_log connected)
       = [Mkdir ''/home/op/logs'', StreamNew sample_stream,
          Console Log ''Logging to /home/op/logs/out.txt'']"
    and c3: "logStream (toggleLogging sample_log logging) = None"
    and c4: "fresh logging (toggleLogging sample_log logging)
       = [StreamEnd sample_stream, Console Log ''Logging stopped'']"
    by (simp_all add: on off fresh_def)
  show ?thesis
    by (intro conjI)
       (rule h1 h2 h3 h4 h5 h6 connected_port connected_no_log c1 c2 dn logging_stream c3 c4)+
qed

text \<open>
  C8, as the claim has it, fails for a file name with a directory in it: for
  \<^verbatim>\<open>sub/out.txt\<close> the target lies in \<^verbatim>\<open>logs/sub\<close>, which does not exist; the only
  directory made is \<^verbatim>\<open>logs\<close>, and the stream on the target is bound all the same.
\<close>

theorem toggle_logging_parent_not_made:
  "(existsSync nested_log (logDir nested_log) \<or> mkdirSync nested_log (logDir nested_log) = Inr ())
   \<and> createWriteStream nested_log (logPath_of nested_log) = Inr ()
   \<and> logStream connected = None
   \<and> logPath_of nested_log = ''/home/op/logs/sub/out.txt''
   \<and> dirname (logPath_of nested_log) = ''/home/op/logs/sub''
   \<and> \<not> existsSync nested_log ''/home/op/logs/sub''
   \<and> fresh connected (toggleLogging nested_log connected)
       = [Mkdir ''/home/op/logs'',
          StreamNew \<lparr>logPath = ''/home/op/logs/sub/out.txt'', flags = ''a''\<rparr>,
          Console Log ''Logging to /home/op/logs/sub/out.txt'']
   \<and> Mkdir ''/home/op/logs/sub'' \<notin> set (fresh connected (toggleLogging nested_log connected))
   \<and> logStream (toggleLogging nested_log connected)
       = Some \<lparr>logPath = ''/home/op/logs/sub/out.txt'', flags = ''a''\<rparr>"
proof -
  have "toggleLogging nested_log connected
      = emit [Mkdir ''/home/op/logs'',
              StreamNew \<lparr>logPath = ''/home/op/logs/sub/out.txt'', flags = ''a''\<rparr>,
              Console Log ''Logging to /home/op/logs/sub/out.txt'']
          (connected\<lparr>logStream := Some \<lparr>logPath = ''/home/op/logs/sub/out.txt'', flags = ''a''\<rparr>\<rparr>)"
    by (subst toggleLogging_start) (simp_all add: connected_fields sample_fs nested_paths)
  moreover have "dirname ''/home/op/logs/sub/out.txt'' = ''/home/op/logs/sub''"
    by (simp add: dirname_def)
  ultimately show ?thesis
    by (simp add: fresh_def sample_fs nested_paths connected_fields)
qed

text \<open>
  C5, as the code has it. While the stream that \<^verbatim>\<open>toggleLogging\<close> opened is the
  session's log stream, the received lines write to that stream, and to no other, the
  text \<^verbatim>\<open>[timestamp] data\<close> followed by a newline, one per line, in the order the
  lines arrive, and the log stream stays bound. The stream's path is \<^verbatim>\<open>path.join\<close>
  of the file name onto \<^verbatim>\<open>path.join(cwd, 'logs')\<close>. On POSIX, for an absolute
  normalised working directory and a file name that is a plain name, that is the file
  of this name in the directory \<^verbatim>\<open>logs\<close> of the working directory.
\<close>

theorem log_lines_in_logs:
  assumes "logStream s0 = None"
    and "existsSync inp (logDir inp) \<or> mkdirSync inp (logDir inp) = Inr ()"
    and "createWriteStream inp (logPath_of inp) = Inr ()"
    and "logStream s = logStream (toggleLogging inp s0)"
  shows "logStream s
           = Some \<lparr>logPath = path_join inp (path_join inp (cwd inp) ''logs'') (fileName inp),
                   flags = ''a''\<rparr>
     \<and> writes (fresh s (onLines evs s))
         = map (\<lambda>(timestamp, data).
                  (\<lparr>logPath = path_join inp (path_join inp (cwd inp) ''logs'') (fileName inp),
                    flags = ''a''\<rparr>,
                   ''['' @ timestamp @ ''] '' @ data @ [LF])) evs
     \<and> logStream (onLines evs s) = logStream s
     \<and> (path_join inp = posix_join \<and> cwd inp = abs_path segs \<and> list_all plain_name segs
          \<and> plain_name (fileName inp)
        \<longrightarrow> path_join inp (path_join inp (cwd inp) ''logs'') (fileName inp)
              = abs_path (segs @ [''logs'']) @ ''/'' @ fileName inp
            \<and> prefix (abs_path (segs @ [''logs'']) @ ''/'')
                (path_join inp (path_join inp (cwd inp) ''logs'') (fileName inp)))"
proof -
  let ?ws = "\<lparr>logPath = path_join inp (path_join inp (cwd inp) ''logs'') (fileName inp),
              flags = ''a''\<rparr>"
  from assms have "logStream s = Some ?ws"
    by (auto simp: toggleLogging_def startLogging_def logDir_def logPath_of_def Let_def)
  then have a: "logStream s = Some ?ws
     \<and> writes (fresh s (onLines evs s))
         = map (\<lambda>(timestamp, data). (?ws, ''['' @ timestamp @ ''] '' @ data @ [LF])) evs
     \<and> logStream (onLines evs s) = logStream s"
    by (simp add: onLines_emit writes_data_effects)
  have b: "path_join inp (path_join inp (cwd inp) ''logs'') (fileName inp)
              = abs_path (segs @ [''logs'']) @ ''/'' @ fileName inp
            \<and> prefix (abs_path (segs @ [''logs'']) @ ''/'')
                (path_join inp (path_join inp (cwd inp) ''logs'') (fileName inp))"
    if h: "path_join inp = posix_join \<and> cwd inp = abs_path segs \<and> list_all plain_name segs
          \<and> plain_name (fileName inp)"
  proof -
    have logs: "plain_name ''logs''" by (simp add: plain_name_def)
    from h logs have "posix_join (abs_path segs) ''logs'' = abs_path (segs @ [''logs''])"
      by (simp add: posix_join_plain)
    moreover from h logs have "posix_join (abs_path (segs @ [''logs''])) (fileName inp)
        = abs_path ((segs @ [''logs'']) @ [fileName inp])"
      by (intro posix_join_plain) simp_all
    ultimately have "path_join inp (path_join inp (cwd inp) ''logs'') (fileName inp)
              = abs_path (segs @ [''logs'']) @ ''/'' @ fileName inp"
      using h by (simp add: abs_path_snoc)
    then show ?thesis by simp
  qed
  from a b show ?thesis by blast
qed

theorem log_lines_in_logs_witness:
  "logStream connected = None
   \<and> (existsSync sample_log (logDir sample_log) \<or> mkdirSync sample_log (logDir sample_log) = Inr ())
   \<and> createWriteStream sample_log (logPath_of sample_log) = Inr ()
   \<and> logStream logging = logStream (toggleLogging sample_log connected)
   \<and> path_join sample_log = posix_join
   \<and> cwd sample_log = abs_path [''home'', ''op'']
   \<and> list_all plain_name [''home'', ''op'']
   \<and> plain_name (fileName sample_log)
   \<and> logStream logging = Some \<lparr>logPath = ''/home/op/logs/out.txt'', flags = ''a''\<rparr>
   \<and> writes (fresh logging (onLines [(''2024-05-01T10:20:31.000Z'', ''hello'')] logging))
       = [(\<lparr>logPath = ''/home/op/logs/out.txt'', flags = ''a''\<rparr>,
           ''[2024-05-01T10:20:31.000Z] hello'' @ [LF])]
   \<and> prefix ''/home/op/logs/'' ''/home/op/logs/out.txt''"
proof -
  have h1: "existsSync sample_log (logDir sample_log) \<or> mkdirSync sample_log (logDir sample_log) = Inr ()"
    and h2: "createWriteStream sample_log (logPath_of sample_log) = Inr ()"
    by (simp_all add: sample_fs)
  have on: "logStream (toggleLogging sample_log connected) = Some sample_stream"
    by (subst toggleLogging_start)
       (simp_all add: connected_fields sample_fs sample_paths sample_stream_def)
  have h0: "logStream logging = logStream (toggleLogging sample_log connected)"
    by (simp add: on logging_fields)
  have h3: "path_join sample_log = posix_join"
    and h4: "cwd sample_log = abs_path [''home'', ''op'']"
    and h5: "list_all plain_name [''home'', ''op'']"
    and h6: "plain_name (fileName sample_log)"
    by (simp_all add: sample_log_def abs_path_def plain_name_def fileName_def)
  have p: "path_join sample_log (path_join sample_log (cwd sample_log) ''logs'') (fileName sample_log)
      = ''/home/op/logs/out.txt''"
    using sample_paths by (simp add: logDir_def logPath_of_def)
  have q: "abs_path ([''home'', ''op''] @ [''logs'']) @ ''/'' = ''/home/op/logs/''"
    by (simp add: abs_path_def)
  note th = log_lines_in_logs [OF connected_no_log h1 h2 h0,
      where evs = "[(''2024-05-01T10:20:31.000Z'', ''hello'')]" and segs = "[''home'', ''op'']"]
  from th have c1: "logStream logging = Some \<lparr>logPath = ''/home/op/logs/out.txt'', flags = ''a''\<rparr>"
    unfolding p by blast
  from th have "writes (fresh logging (onLines [(''2024-05-01T10:20:31.000Z'', ''hello'')] logging))
       = map (\<lambda>(timestamp, data).
                  (\<lparr>logPath = ''/home/op/logs/out.txt'', flags = ''a''\<rparr>,
                   ''['' @ timestamp @ ''] '' @ data @ [LF])) [(''2024-05-01T10:20:31.000Z'', ''hello'')]"
    unfolding p by blast
  then have c2: "writes (fresh logging (onLines [(''2024-05-01T10:20:31.000Z'', ''hello'')] logging))
       = [(\<lparr>logPath = ''/home/op/logs/out.txt'', flags = ''a''\<rparr>,
           ''[2024-05-01T10:20:31.000Z] hello'' @ [LF])]"
    by simp
  from th h3 h4 h5 h6 have c3: "prefix ''/home/op/logs/'' ''/home/op/logs/out.txt''"
    unfolding p q by blast
  show ?thesis
    by (intro conjI) (rule connected_no_log h1 h2 h0 h3 h4 h5 h6 c1 c2 c3)+
qed

text \<open>
  C5, as the claim has it, fails for a file name that leads upwards: for
  \<^verbatim>\<open>../x.txt\<close> the stream is opened on \<^verbatim>\<open>x.txt\<close> in the working directory, outside
  \<^verbatim>\<open>logs\<close>, and the received lines are written there.
\<close>

theorem log_file_outside_logs:
  "logStream connected = None
   \<and> logDir escaping_log = ''/home/op/logs''
   \<and> logStream (toggleLogging escaping_log connected)
       = Some \<lparr>logPath = ''/home/op/x.txt'', flags = ''a''\<rparr>
   \<and> \<not> prefix ''/home/op/logs/'' ''/home/op/x.txt''
   \<and> writes (fresh (toggleLogging escaping_log connected)
        (onLines [(''2024-05-01T10:20:31.000Z'', ''hello'')] (toggleLogging escaping_log connected)))
       = [(\<lparr>logPath = ''/home/op/x.txt'', flags = ''a''\<rparr>,
           ''[2024-05-01T10:20:31.000Z] hello'' @ [LF])]"
proof -
  have "toggleLogging escaping_log connected
      = emit [Mkdir ''/home/op/logs'',
              StreamNew \<lparr>logPath = ''/home/op/x.txt'', flags = ''a''\<rparr>,
              Console Log ''Logging to /home/op/x.txt'']
          (connected\<lparr>logStream := Some \<lparr>logPath = ''/home/op/x.txt'', flags = ''a''\<rparr>\<rparr>)"
    by (subst toggleLogging_start) (simp_all add: connected_fields sample_fs escaping_paths)
  then have l: "logStream (toggleLogging escaping_log connected)
       = Some \<lparr>logPath = ''/home/op/x.txt'', flags = ''a''\<rparr>"
    by simp
  show ?thesis
    using l
    by (simp add: connected_fields escaping_paths onLines_emit data_effects_def streamMsg_def)
qed

section \<open>Framing the bytes received\<close>











lemma frame_AB:
  "ReadlineParser delimiter [] [CHR ''A'', CR, LF, CHR ''B'', CR, LF] = ([''A'', ''B''], [])"
  by (simp add: ReadlineParser_def delimiter_def split_lines.simps)

lemma upt2: "[0..<2] = [0, Suc 0]"
  by (simp add: upt_rec numeral_2_eq_2)

text \<open>
  C4. After a connect that succeeds, the port is bound, and the bytes
  \<^verbatim>\<open>A\r\nB\r\n\<close> read from it are framed into the two lines \<^verbatim>\<open>A\<close> and \<^verbatim>\<open>B\<close>,
  without the delimiter: receiving them is exactly a call of the data handler with
  \<^verbatim>\<open>A\<close> followed by a call with \<^verbatim>\<open>B\<close>.
\<close>

theorem connect_then_receive:
  assumes "list_result inp = Inr ports" and "ports \<noteq> []" and "construct_result inp = Inr ()"
  shows "serialConnection (connectToDevice inp s)
           = Some \<lparr>path = selectedPort inp, baudRate = selectedBaud inp, dataBits = 8,
                   stopBits = 1, parity = ''none''\<rparr>
     \<and> ReadlineParser delimiter [] [CHR ''A'', CR, LF, CHR ''B'', CR, LF] = ([''A'', ''B''], [])
     \<and> receive \<lparr>path = selectedPort inp, baudRate = selectedBaud inp, dataBits = 8,
                 stopBits = 1, parity = ''none''\<rparr>
          [CHR ''A'', CR, LF, CHR ''B'', CR, LF] clock (connectToDevice inp s)
         = onData (clock 1) ''B'' (onData (clock 0) ''A'' (connectToDevice inp s))"
proof -
  let ?p = "\<lparr>path = selectedPort inp, baudRate = selectedBaud inp, dataBits = 8,
                   stopBits = 1, parity = ''none''\<rparr>"
  let ?s1 = "connectToDevice inp s"
  from assms have conn: "serialConnection ?s1 = Some ?p" and buf: "parser ?s1 ?p = []"
    by (rule connect_constructs)+
  have "receive ?p [CHR ''A'', CR, LF, CHR ''B'', CR, LF] clock ?s1
      = onLines [(clock 0, ''A''), (clock 1, ''B'')] ?s1"
    unfolding receive_def buf frame_AB using buf by (simp add: upt2 parser_same)
  with conn frame_AB show ?thesis by simp
qed

theorem connect_then_receive_witness:
  "list_result sample_connect = Inr [PortInfo ''/dev/ttyUSB0'' None None]
   \<and> [PortInfo ''/dev/ttyUSB0'' None None] \<noteq> []
   \<and> construct_result sample_connect = Inr ()
   \<and> serialConnection connected = Some sample_port
   \<and> receive sample_port [CHR ''A'', CR, LF, CHR ''B'', CR, LF]
        (\<lambda>i. if i = 0 then ''T0'' else ''T1'') connected
       = onData ''T1'' ''B'' (onData ''T0'' ''A'' connected)
   \<and> fresh connected (receive sample_port [CHR ''A'', CR, LF, CHR ''B'', CR, LF]
        (\<lambda>i. if i = 0 then ''T0'' else ''T1'') connected)
       = [Console Log ''[T0] A'', Console Debug ([LF] @ '' [T0] A''),
          Console Log ''[T1] B'', Console Debug ([LF] @ '' [T1] B'')]"
proof -
  have h1: "list_result sample_connect = Inr [PortInfo ''/dev/ttyUSB0'' None None]"
    and h2: "[PortInfo ''/dev/ttyUSB0'' None None] \<noteq> []"
    and h3: "construct_result sample_connect = Inr ()"
    by (simp_all add: sample_connect_def)
  have p: "\<lparr>path = selectedPort sample_connect, baudRate = selectedBaud sample_connect,
      dataBits = 8, stopBits = 1, parity = ''none''\<rparr> = sample_port"
    by (simp add: sample_connect_def sample_port_def)
  from connect_then_receive [OF h1 h2 h3, of "answered DisconnectedMenu main"
      "\<lambda>i. if i = 0 then ''T0'' else ''T1''"]
  have r: "receive sample_port [CHR ''A'', CR, LF, CHR ''B'', CR, LF]
        (\<lambda>i. if i = 0 then ''T0'' else ''T1'') connected
       = onData ''T1'' ''B'' (onData ''T0'' ''A'' connected)"
    unfolding p connected_def [symmetric] by simp
  show ?thesis
    using h1 h2 h3 connected_port
    by (simp add: r onData_emit connected_no_log data_effects_def streamMsg_def)
qed


subsection \<open>Which ports are live\<close>

lemma showConnectedMenu_livePorts [simp]:
  "livePorts (showConnectedMenu s) = livePorts s"
  "parser (showConnectedMenu s) = parser s"
  by (simp_all add: showConnectedMenu_def split: option.split)

lemma onClose_livePorts [simp]:
  "livePorts (onClose s) = livePorts s" "parser (onClose s) = parser s"
  by (simp_all add: onClose_def Let_def split: option.split)

lemma disconnect_livePorts:
  "livePorts (disconnectFromDevice s)
     = (case serialConnection s of None \<Rightarrow> livePorts s | Some p \<Rightarrow> remove1 p (livePorts s))"
  "parser (disconnectFromDevice s) = parser s"
  by (simp_all add: disconnectFromDevice_def Let_def split: option.split)



lemma sendCommand_livePorts [simp]:
  "livePorts (sendCommand command w s) = livePorts s"
  by (simp add: sendCommand_def split: option.split sum.split)

lemma toggleLogging_livePorts [simp]:
  "livePorts (toggleLogging inp s) = livePorts s"
  by (simp add: toggleLogging_def startLogging_def log_catch_def Let_def
      split: option.split sum.split)

lemma receive_livePorts [simp]:
  "livePorts (receive p chunk clock s) = livePorts s"
  by (simp add: receive_def onLines_emit split: prod.split)





lemma disconnect_fields:
  "serialConnection (disconnectFromDevice s) = None"
  "exitCode (disconnectFromDevice s) = exitCode s"
  "logStream (disconnectFromDevice s)
     = (case serialConnection s of None \<Rightarrow> logStream s | Some p \<Rightarrow> None)"
  "pending (disconnectFromDevice s)
     = (case serialConnection s of None \<Rightarrow> pending s | Some p \<Rightarrow> pending s @ [DisconnectedMenu])"
  by (simp_all add: disconnectFromDevice_def onClose_def Let_def split: option.split)




section \<open>More than one connection\<close>

lemma disconnected_fields:
  "serialConnection disconnected = None" "livePorts disconnected = []"
  "exitCode disconnected = None" "logStream disconnected = None"
  "pending disconnected = [DisconnectedMenu, DisconnectedMenu]"
  by (simp_all add: disconnected_def disconnect_fields disconnect_livePorts connected_fields)

lemma sample_connect_ok:
  "list_result sample_connect = Inr [PortInfo ''/dev/ttyUSB0'' None None]"
  "[PortInfo ''/dev/ttyUSB0'' None None] \<noteq> []"
  "construct_result sample_connect = Inr ()"
  "\<lparr>path = selectedPort sample_connect, baudRate = selectedBaud sample_connect,
      dataBits = 8, stopBits = 1, parity = ''none''\<rparr> = sample_port"
  by (simp_all add: sample_connect_def sample_port_def)

lemma second_connect_ok:
  "list_result second_connect
     = Inr [PortInfo ''/dev/ttyUSB0'' None None, PortInfo ''/dev/ttyUSB1'' None None]"
  "[PortInfo ''/dev/ttyUSB0'' None None, PortInfo ''/dev/ttyUSB1'' None None] \<noteq> []"
  "construct_result second_connect = Inr ()"
  "\<lparr>path = selectedPort second_connect, baudRate = selectedBaud second_connect,
      dataBits = 8, stopBits = 1, parity = ''none''\<rparr> = second_port"
  by (simp_all add: second_connect_def second_port_def sample_port_def)

lemma reconnected_fields:
  "serialConnection reconnected = Some sample_port" "livePorts reconnected = [sample_port]"
  "exitCode reconnected = None" "pending reconnected = [DisconnectedMenu, ConnectedMenu]"
proof -
  note cc = connect_constructs [OF sample_connect_ok(1,2,3),
      of "answered DisconnectedMenu disconnected", unfolded sample_connect_ok(4),
      folded reconnected_def]
  show "serialConnection reconnected = Some sample_port"
    "livePorts reconnected = [sample_port]"
    "exitCode reconnected = None" "pending reconnected = [DisconnectedMenu, ConnectedMenu]"
    by (simp_all add: cc disconnected_fields)
qed

lemma doubled_fields:
  "serialConnection doubled = Some second_port"
  "livePorts doubled = [second_port, sample_port]"
  "pending doubled = [ConnectedMenu, ConnectedMenu]"
  "constructed (fresh reconnected doubled) = [second_port]"
  "PortClose sample_port \<notin> set (fresh reconnected doubled)"
proof -
  have f: "fresh reconnected doubled = fresh (answered DisconnectedMenu reconnected) doubled"
    by (simp add: fresh_def)
  note cc = connect_constructs [OF second_connect_ok(1,2,3),
      of "answered DisconnectedMenu reconnected", unfolded second_connect_ok(4),
      folded doubled_def]
  show "serialConnection doubled = Some second_port"
    "livePorts doubled = [second_port, sample_port]"
    "pending doubled = [ConnectedMenu, ConnectedMenu]"
    "constructed (fresh reconnected doubled) = [second_port]"
    "PortClose sample_port \<notin> set (fresh reconnected doubled)"
    unfolding f by (simp_all add: cc reconnected_fields)
qed

lemma connected_step:
  "step (AtDisconnectedMenu (DConnect sample_connect)) main = Some connected"
  by (simp add: step.simps main_fields connected_def)

lemma disconnected_step:
  "step (AtConnectedMenu CDisconnect) connected = Some disconnected"
  by (simp add: step.simps connected_fields disconnected_def)

lemma reconnected_step:
  "step (AtDisconnectedMenu (DConnect sample_connect)) disconnected = Some reconnected"
  by (simp add: step.simps disconnected_fields reconnected_def)

text \<open>
  C2. The operator connects and disconnects. Disconnecting shows the main menu twice,
  once from the handler of \<^verbatim>\<open>'close'\<close> and once from the menu that was answered, so
  two prompts of the disconnected menu wait. The operator connects at one of them: the
  port is bound and live. The operator then connects at the other, to the second port:
  \<^verbatim>\<open>connectToDevice\<close> constructs that port and binds it in place of the first, which
  it does not close. Two ports are live, and the session has lost hold of one.
\<close>

theorem second_port_while_bound:
  "run [AtDisconnectedMenu (DConnect sample_connect), AtConnectedMenu CDisconnect,
        AtDisconnectedMenu (DConnect sample_connect)] main = Some reconnected
   \<and> serialConnection reconnected = Some sample_port
   \<and> livePorts reconnected = [sample_port]
   \<and> pending reconnected = [DisconnectedMenu, ConnectedMenu]
   \<and> step (AtDisconnectedMenu (DConnect second_connect)) reconnected = Some doubled
   \<and> constructed (fresh reconnected doubled) = [second_port]
   \<and> PortClose sample_port \<notin> set (fresh reconnected doubled)
   \<and> serialConnection doubled = Some second_port
   \<and> livePorts doubled = [second_port, sample_port]
   \<and> length (livePorts doubled) = 2"
proof -
  have r: "run [AtDisconnectedMenu (DConnect sample_connect), AtConnectedMenu CDisconnect,
        AtDisconnectedMenu (DConnect sample_connect)] main = Some reconnected"
    by (simp add: connected_step disconnected_step reconnected_step)
  have st: "step (AtDisconnectedMenu (DConnect second_connect)) reconnected = Some doubled"
    by (simp add: step.simps reconnected_fields doubled_def)
  have two: "length (livePorts doubled) = 2"
    by (simp add: doubled_fields)
  show ?thesis
    by (intro conjI) (rule r reconnected_fields st doubled_fields two)+
qed

end
